theory Spec2Isabelle
  imports Main
begin

section \<open>Python values, exceptions and dictionary access\<close>

text \<open>
  The values that travel through \<^verbatim>\<open>app.py\<close> as decoded JSON or as tool-call
  dictionaries. \<open>PNone\<close> is Python's \<^verbatim>\<open>None\<close>; a dictionary keeps its items as an
  association list. Floating point numbers are left out.
\<close>

datatype pyval =
    PNone
  | PBool bool
  | PInt int
  | PStr string
  | PList "pyval list"
  | PDict "(string \<times> pyval) list"

text \<open>
  The exceptions the handlers can see. \<open>EngineError\<close> is whatever the reasoning
  engine raises (with its message), \<open>JSONDecodeError\<close> is raised by \<^verbatim>\<open>json.loads\<close>,
  \<open>AttributeError t\<close> is \<^verbatim>\<open>.get\<close> called on a value of type \<open>t\<close> that is not a
  dictionary, \<open>IndexError\<close> is \<^verbatim>\<open>[-1]\<close> on an empty list, \<open>ValidationError f\<close> is
  the response model rejecting field \<open>f\<close>, \<open>OperationalError\<close> is raised by the
  SQLite driver, \<open>InvalidArgument\<close> is the preference store rejecting its input.
\<close>

datatype exn =
    EngineError string
  | JSONDecodeError string
  | AttributeError string
  | IndexError
  | ValidationError string
  | OperationalError string
  | InvalidArgument string

text \<open>\<^verbatim>\<open>raise HTTPException(status_code=500, detail=f"<prefix>{str(e)}")\<close>:
  the status code, the prefix of the detail and the exception whose text completes it.\<close>

datatype http_error = HTTPException nat string exn

fun type_name :: "pyval \<Rightarrow> string" where
  "type_name PNone = ''NoneType''"
| "type_name (PBool b) = ''bool''"
| "type_name (PInt i) = ''int''"
| "type_name (PStr s) = ''str''"
| "type_name (PList xs) = ''list''"
| "type_name (PDict kvs) = ''dict''"

text \<open>Python truthiness, as used by \<^verbatim>\<open>if not query\<close>, \<^verbatim>\<open>not msg.name\<close> and \<^verbatim>\<open>x or y\<close>.\<close>

fun truthy :: "pyval \<Rightarrow> bool" where
  "truthy PNone = False"
| "truthy (PBool b) = b"
| "truthy (PInt i) = (i \<noteq> 0)"
| "truthy (PStr s) = (s \<noteq> [])"
| "truthy (PList xs) = (xs \<noteq> [])"
| "truthy (PDict kvs) = (kvs \<noteq> [])"

text \<open>\<^verbatim>\<open>d.get(k, default)\<close>: defined on dictionaries, an \<^verbatim>\<open>AttributeError\<close> on
  every other value.\<close>

fun py_get :: "pyval \<Rightarrow> string \<Rightarrow> pyval \<Rightarrow> exn + pyval" where
  "py_get (PDict kvs) k d = Inr (case map_of kvs k of None \<Rightarrow> d | Some v \<Rightarrow> v)"
| "py_get v k d = Inl (AttributeError (type_name v))"

definition sql_tool :: string where
  "sql_tool = ''sql_db_query''"


section \<open>Engine messages and events\<close>

text \<open>
  A message of the engine is probed by attribute: \<^verbatim>\<open>hasattr(msg, 'tool_calls')\<close>,
  \<^verbatim>\<open>hasattr(msg, 'content')\<close>, \<^verbatim>\<open>hasattr(msg, 'name')\<close>. \<open>None\<close> stands for a missing
  attribute (for \<open>msg_tool_calls\<close> also for a \<^verbatim>\<open>None\<close> one, which is as falsy as the
  empty list). Each tool call is a dictionary.
\<close>

record msg =
  msg_tool_calls :: "pyval list option"
  msg_content :: "pyval option"
  msg_name :: "pyval option"

text \<open>An event is a dictionary; only its \<^verbatim>\<open>"messages"\<close> entry is read. \<open>None\<close>: the
  key is absent.\<close>

type_synonym event = "msg list option"

text \<open>What one call of \<^verbatim>\<open>agent.stream\<close> yields: the events produced, then either
  the end of the stream or an exception.\<close>

datatype run = Run (events: "event list") (raised: "exn option")


section \<open>The process state and its environment\<close>

text \<open>Outbound frames of the streaming channel, one constructor per dictionary
  literal passed to \<^verbatim>\<open>websocket.send_json\<close>.\<close>

datatype frame =
    Error_only string
      \<comment> \<open>\<^verbatim>\<open>{"error": s}\<close>\<close>
  | Status_processing string pyval
      \<comment> \<open>\<^verbatim>\<open>{"status": "processing", "user_id": u, "query": q}\<close>\<close>
  | Type_tool_call pyval pyval
      \<comment> \<open>\<^verbatim>\<open>{"type": "tool_call", "tool": name, "args": args}\<close>\<close>
  | Type_raw_result string
      \<comment> \<open>\<^verbatim>\<open>{"type": "raw_result", "content": c}\<close>\<close>
  | Type_message string
      \<comment> \<open>\<^verbatim>\<open>{"type": "message", "content": c}\<close>\<close>
  | Status_completed pyval string
      \<comment> \<open>\<^verbatim>\<open>{"status": "completed", "sql_query": q, "timestamp": t}\<close>\<close>
  | Status_error exn
      \<comment> \<open>\<^verbatim>\<open>{"status": "error", "error": str(e)}\<close>\<close>

text \<open>The observable effects, in the order they happen.\<close>

datatype effect =
    Accept
      \<comment> \<open>\<^verbatim>\<open>websocket.accept()\<close>\<close>
  | Send frame
      \<comment> \<open>\<^verbatim>\<open>websocket.send_json(...)\<close>\<close>
  | Invoke "string option" string
      \<comment> \<open>\<^verbatim>\<open>agent.stream\<close> called with this \<^verbatim>\<open>thread_id\<close> and this input text\<close>
  | Print_disconnected string
      \<comment> \<open>\<^verbatim>\<open>print(f"WebSocket disconnected for user: {user_id}")\<close>\<close>
  | Print_error exn
      \<comment> \<open>\<^verbatim>\<open>print(f"WebSocket error: {str(e)}")\<close>\<close>
  | Sql_execute string "string list"
      \<comment> \<open>\<^verbatim>\<open>cursor.execute(statement, parameters)\<close>\<close>
  | Sql_commit
      \<comment> \<open>\<^verbatim>\<open>conn.commit()\<close>\<close>

text \<open>A row of table \<^verbatim>\<open>user_preferences\<close>.\<close>

record pref_row =
  pref_user_id :: string
  pref_priority_key :: string
  pref_priority_value :: string
  pref_context :: "string option"
  pref_feedback_text :: "string option"
  pref_source_query :: "string option"
  pref_updated_at :: string

text \<open>
  The mutable state of the process: \<^verbatim>\<open>sql_agent._global_agent\<close> (\<open>None\<close> when
  unset), the preference table (\<open>None\<close> when the database has no such table, so
  that a statement on it raises), the effects so far, and how often the clock
  and the UUID generator have been read.
\<close>

record 'a world =
  global_agent :: "'a option"
  user_preferences :: "pref_row list option"
  trace :: "effect list"
  clock :: nat
  uuids :: nat

text \<open>
  What the program takes from outside: building a new engine (which may raise),
  \<^verbatim>\<open>agent.stream\<close> on a thread id (\<open>None\<close> for Python's \<^verbatim>\<open>None\<close>) and an input
  text (the engine keeps its own memory, so it returns its new state), the \<open>n\<close>-th reading of
  \<^verbatim>\<open>datetime.now().isoformat()\<close> and of \<^verbatim>\<open>str(uuid.uuid4())\<close>, and \<^verbatim>\<open>str\<close> applied
  to a decoded JSON value that is not a string.
\<close>

record 'a env =
  create_agent :: "exn + 'a"
  agent_stream :: "'a \<Rightarrow> string option \<Rightarrow> string \<Rightarrow> run \<times> 'a"
  now_isoformat :: "nat \<Rightarrow> string"
  uuid4 :: "nat \<Rightarrow> string"
  str_of_value :: "pyval \<Rightarrow> string"

definition emit :: "effect list \<Rightarrow> 'a world \<Rightarrow> 'a world" where
  "emit es w = w\<lparr>trace := trace w @ es\<rparr>"

definition read_clock :: "'a env \<Rightarrow> 'a world \<Rightarrow> string \<times> 'a world" where
  "read_clock env w = (now_isoformat env (clock w), w\<lparr>clock := Suc (clock w)\<rparr>)"

text \<open>Modelled from the spec: \<^verbatim>\<open>sql_agent.get_or_create_agent\<close> is not among the
  sources. The engine instance is a process-wide singleton, created lazily on first
  use and shared thereafter.\<close>

definition get_or_create_agent :: "'a env \<Rightarrow> 'a world \<Rightarrow> (exn + 'a) \<times> 'a world" where
  "get_or_create_agent env w =
     (case global_agent w of
        Some a \<Rightarrow> (Inr a, w)
      | None \<Rightarrow>
          (case create_agent env of
             Inl e \<Rightarrow> (Inl e, w)
           | Inr a \<Rightarrow> (Inr a, w\<lparr>global_agent := Some a\<rparr>)))"

text \<open>\<^verbatim>\<open>f"[User ID: {user_id}]\n{query}"\<close>\<close>

definition enhanced_input :: "string \<Rightarrow> string \<Rightarrow> string" where
  "enhanced_input uid q = ''[User ID: '' @ uid @ '']'' @ [CHR 0x0A] @ q"

text \<open>\<^verbatim>\<open>str\<close> of an optional string, as the f-string formats \<^verbatim>\<open>request.user_id\<close>.\<close>

fun str_opt :: "string option \<Rightarrow> string" where
  "str_opt None = ''None''"
| "str_opt (Some s) = s"

text \<open>\<^verbatim>\<open>str\<close> of a decoded JSON value, as the f-string formats \<^verbatim>\<open>query\<close>.\<close>

definition py_str :: "'a env \<Rightarrow> pyval \<Rightarrow> string" where
  "py_str env v = (case v of PStr s \<Rightarrow> s | _ \<Rightarrow> str_of_value env v)"


section \<open>Request and response models\<close>

text \<open>\<^verbatim>\<open>class QueryRequest(BaseModel)\<close>: \<^verbatim>\<open>query: str\<close> and
  \<^verbatim>\<open>user_id: Optional[str] = "default_user"\<close>.\<close>

record QueryRequest =
  qr_query :: string
  qr_user_id :: "string option"


text \<open>\<^verbatim>\<open>class QueryResponse(BaseModel)\<close>; \<^verbatim>\<open>model\<close> keeps its default.\<close>

record QueryResponse =
  resp_user_id :: string
  resp_query :: string
  resp_summary :: string
  resp_sql_query :: "string option"
  resp_raw_result :: "string option"
  resp_timestamp :: string
  resp_model :: string

text \<open>Field \<^verbatim>\<open>user_id: str\<close> of the response rejects \<^verbatim>\<open>None\<close>.\<close>

fun validate_str :: "string \<Rightarrow> string option \<Rightarrow> exn + string" where
  "validate_str f None = Inl (ValidationError f)"
| "validate_str f (Some s) = Inr s"

text \<open>Field \<^verbatim>\<open>sql_query: Optional[str]\<close> of the response accepts \<^verbatim>\<open>None\<close> and
  strings only.\<close>

fun validate_opt_str :: "string \<Rightarrow> pyval \<Rightarrow> exn + string option" where
  "validate_opt_str f PNone = Inr None"
| "validate_opt_str f (PStr s) = Inr (Some s)"
| "validate_opt_str f v = Inl (ValidationError f)"


section \<open>Interpreting the event stream of one turn (\<^verbatim>\<open>execute_query\<close>)\<close>

text \<open>The three variables of the loop: \<^verbatim>\<open>summary\<close>, \<^verbatim>\<open>sql_query\<close>, \<^verbatim>\<open>raw_result\<close>.\<close>

record acc =
  summary :: string
  sql_query :: pyval
  raw_result :: "string option"

definition acc_init :: acc where
  "acc_init = \<lparr>summary = [], sql_query = PNone, raw_result = None\<rparr>"

text \<open>\<^verbatim>\<open>tool_call.get('args', {}).get('query', '')\<close>\<close>

definition call_query :: "pyval \<Rightarrow> exn + pyval" where
  "call_query tc =
     (case py_get tc ''args'' (PDict []) of
        Inl e \<Rightarrow> Inl e
      | Inr args \<Rightarrow> py_get args ''query'' (PStr []))"

text \<open>\<^verbatim>\<open>for tool_call in msg.tool_calls\<close>, on variable \<^verbatim>\<open>sql_query\<close>.\<close>

fun scan_tool_calls :: "pyval \<Rightarrow> pyval list \<Rightarrow> exn + pyval" where
  "scan_tool_calls sq [] = Inr sq"
| "scan_tool_calls sq (tc # tcs) =
     (case py_get tc ''name'' PNone of
        Inl e \<Rightarrow> Inl e
      | Inr n \<Rightarrow>
          if n = PStr sql_tool then
            (case call_query tc of
               Inl e \<Rightarrow> Inl e
             | Inr q \<Rightarrow> scan_tool_calls q tcs)
          else scan_tool_calls sq tcs)"

text \<open>The second half of the loop body: \<^verbatim>\<open>raw_result\<close> and \<^verbatim>\<open>summary\<close> from the
  content of the message.\<close>

definition scan_content :: "acc \<Rightarrow> msg \<Rightarrow> acc" where
  "scan_content a m =
     (case msg_content m of
        Some (PStr c) \<Rightarrow>
          if msg_name m = Some (PStr sql_tool) then a\<lparr>raw_result := Some c\<rparr>
          else if (case msg_name m of None \<Rightarrow> True | Some n \<Rightarrow> \<not> truthy n)
            then a\<lparr>summary := c\<rparr>
          else a
      | _ \<Rightarrow> a)"

text \<open>The body of \<^verbatim>\<open>for event in events\<close>. \<^verbatim>\<open>event["messages"][-1]\<close> raises on an
  empty list.\<close>

definition scan_event :: "acc \<Rightarrow> event \<Rightarrow> exn + acc" where
  "scan_event a ev =
     (case ev of
        None \<Rightarrow> Inr a
      | Some [] \<Rightarrow> Inl IndexError
      | Some ms \<Rightarrow>
          (let m = last ms in
           case (case msg_tool_calls m of
                   None \<Rightarrow> Inr (sql_query a)
                 | Some tcs \<Rightarrow> scan_tool_calls (sql_query a) tcs) of
             Inl e \<Rightarrow> Inl e
           | Inr sq \<Rightarrow> Inr (scan_content (a\<lparr>sql_query := sq\<rparr>) m)))"

fun scan_events :: "acc \<Rightarrow> event list \<Rightarrow> exn + acc" where
  "scan_events a [] = Inr a"
| "scan_events a (ev # evs) =
     (case scan_event a ev of
        Inl e \<Rightarrow> Inl e
      | Inr a' \<Rightarrow> scan_events a' evs)"

text \<open>The loop over a whole run: an exception of the engine surfaces once the
  events before it have been consumed.\<close>

definition scan_run :: "run \<Rightarrow> exn + acc" where
  "scan_run r =
     (case scan_events acc_init (events r) of
        Inl e \<Rightarrow> Inl e
      | Inr a \<Rightarrow> (case raised r of Some e \<Rightarrow> Inl e | None \<Rightarrow> Inr a))"

definition fallback_summary :: string where
  "fallback_summary = ''Query processed successfully''"

text \<open>\<^verbatim>\<open>QueryResponse(user_id=..., query=..., summary=summary or "...", ...)\<close>\<close>

definition make_response :: "QueryRequest \<Rightarrow> acc \<Rightarrow> string \<Rightarrow> exn + QueryResponse" where
  "make_response request a ts =
     (case validate_str ''user_id'' (qr_user_id request) of
        Inl e \<Rightarrow> Inl e
      | Inr uid \<Rightarrow>
          (case validate_opt_str ''sql_query'' (sql_query a) of
             Inl e \<Rightarrow> Inl e
           | Inr sq \<Rightarrow>
               Inr \<lparr>resp_user_id = uid,
                    resp_query = qr_query request,
                    resp_summary = (if summary a \<noteq> [] then summary a else fallback_summary),
                    resp_sql_query = sq,
                    resp_raw_result = raw_result a,
                    resp_timestamp = ts,
                    resp_model = ''Gemini 2.0 Flash''\<rparr>))"

definition query_failed :: "exn \<Rightarrow> http_error" where
  "query_failed e = HTTPException 500 ''Query execution failed: '' e"

text \<open>\<^verbatim>\<open>POST /query\<close>\<close>

definition execute_query ::
  "'a env \<Rightarrow> QueryRequest \<Rightarrow> 'a world \<Rightarrow> (http_error + QueryResponse) \<times> 'a world" where
  "execute_query env request w =
     (case get_or_create_agent env w of
        (Inl e, w1) \<Rightarrow> (Inl (query_failed e), w1)
      | (Inr agent, w1) \<Rightarrow>
          (let thread_id = qr_user_id request;
               inp = enhanced_input (str_opt (qr_user_id request)) (qr_query request);
               (r, agent') = agent_stream env agent thread_id inp;
               w2 = emit [Invoke thread_id inp] (w1\<lparr>global_agent := Some agent'\<rparr>)
           in case scan_run r of
                Inl e \<Rightarrow> (Inl (query_failed e), w2)
              | Inr a \<Rightarrow>
                  (case read_clock env w2 of
                     (ts, w3) \<Rightarrow>
                       (case make_response request a ts of
                          Inl e \<Rightarrow> (Inl (query_failed e), w3)
                        | Inr resp \<Rightarrow> (Inr resp, w3)))))"


section \<open>The streaming channel (\<^verbatim>\<open>websocket_endpoint\<close>)\<close>

text \<open>The two variables of the streaming loop: \<^verbatim>\<open>sql_query\<close> and \<^verbatim>\<open>raw_result\<close>.\<close>

record vars =
  v_sql_query :: pyval
  v_raw_result :: "string option"

definition vars_init :: vars where
  "vars_init = \<lparr>v_sql_query = PNone, v_raw_result = None\<rparr>"

text \<open>
  \<^verbatim>\<open>for tool_call in msg.tool_calls\<close>: the frames sent, and the new \<^verbatim>\<open>sql_query\<close> or
  the exception that ended the loop. The dictionary literal of the frame reads
  \<^verbatim>\<open>name\<close> and \<^verbatim>\<open>args\<close> before anything is sent.
\<close>

fun ws_tool_calls :: "pyval \<Rightarrow> pyval list \<Rightarrow> frame list \<times> (exn + pyval)" where
  "ws_tool_calls sq [] = ([], Inr sq)"
| "ws_tool_calls sq (tc # tcs) =
     (case py_get tc ''name'' PNone of
        Inl e \<Rightarrow> ([], Inl e)
      | Inr n \<Rightarrow>
          (case py_get tc ''args'' (PDict []) of
             Inl e \<Rightarrow> ([], Inl e)
           | Inr args \<Rightarrow>
               if n = PStr sql_tool then
                 (case call_query tc of
                    Inl e \<Rightarrow> ([Type_tool_call n args], Inl e)
                  | Inr q \<Rightarrow>
                      (case ws_tool_calls q tcs of
                         (fs, res) \<Rightarrow> (Type_tool_call n args # fs, res)))
               else
                 (case ws_tool_calls sq tcs of
                    (fs, res) \<Rightarrow> (Type_tool_call n args # fs, res))))"

text \<open>The content part of the loop body; unlike \<open>scan_content\<close> it sends.\<close>

definition ws_content :: "vars \<Rightarrow> msg \<Rightarrow> frame list \<times> vars" where
  "ws_content v m =
     (case msg_content m of
        Some (PStr c) \<Rightarrow>
          if msg_name m = Some (PStr sql_tool)
            then ([Type_raw_result c], v\<lparr>v_raw_result := Some c\<rparr>)
          else if (case msg_name m of None \<Rightarrow> True | Some n \<Rightarrow> \<not> truthy n)
            then ([Type_message c], v)
          else ([], v)
      | _ \<Rightarrow> ([], v))"

definition ws_event :: "vars \<Rightarrow> event \<Rightarrow> frame list \<times> (exn + vars)" where
  "ws_event v ev =
     (case ev of
        None \<Rightarrow> ([], Inr v)
      | Some [] \<Rightarrow> ([], Inl IndexError)
      | Some ms \<Rightarrow>
          (let m = last ms in
           case (case msg_tool_calls m of
                   None \<Rightarrow> ([], Inr (v_sql_query v))
                 | Some tcs \<Rightarrow> ws_tool_calls (v_sql_query v) tcs) of
             (fs, Inl e) \<Rightarrow> (fs, Inl e)
           | (fs, Inr sq) \<Rightarrow>
               (case ws_content (v\<lparr>v_sql_query := sq\<rparr>) m of
                  (gs, v') \<Rightarrow> (fs @ gs, Inr v'))))"

fun ws_events :: "vars \<Rightarrow> event list \<Rightarrow> frame list \<times> (exn + vars)" where
  "ws_events v [] = ([], Inr v)"
| "ws_events v (ev # evs) =
     (case ws_event v ev of
        (fs, Inl e) \<Rightarrow> (fs, Inl e)
      | (fs, Inr v') \<Rightarrow>
          (case ws_events v' evs of (gs, res) \<Rightarrow> (fs @ gs, res)))"

definition ws_run :: "run \<Rightarrow> frame list \<times> (exn + vars)" where
  "ws_run r =
     (case ws_events vars_init (events r) of
        (fs, Inl e) \<Rightarrow> (fs, Inl e)
      | (fs, Inr v) \<Rightarrow> (case raised r of Some e \<Rightarrow> (fs, Inl e) | None \<Rightarrow> (fs, Inr v)))"

text \<open>One turn: from the \<^verbatim>\<open>processing\<close> frame to the end of the inner
  \<^verbatim>\<open>try\<close>/\<^verbatim>\<open>except\<close>.\<close>

definition ws_turn :: "'a env \<Rightarrow> string \<Rightarrow> pyval \<Rightarrow> 'a world \<Rightarrow> 'a world" where
  "ws_turn env user_id query w =
     (case get_or_create_agent env (emit [Send (Status_processing user_id query)] w) of
        (Inl e, w1) \<Rightarrow> emit [Send (Status_error e)] w1
      | (Inr agent, w1) \<Rightarrow>
          (let inp = enhanced_input user_id (py_str env query);
               (r, agent') = agent_stream env agent (Some user_id) inp;
               w2 = emit [Invoke (Some user_id) inp] (w1\<lparr>global_agent := Some agent'\<rparr>)
           in case ws_run r of
                (fs, Inl e) \<Rightarrow> emit (map Send fs @ [Send (Status_error e)]) w2
              | (fs, Inr v) \<Rightarrow>
                  (case read_clock env (emit (map Send fs) w2) of
                     (ts, w3) \<Rightarrow> emit [Send (Status_completed (v_sql_query v) ts)] w3)))"

text \<open>How the handler returned: the client disconnected, or the outer
  \<^verbatim>\<open>except Exception\<close> caught \<open>e\<close>.\<close>

datatype ending = Disconnected | Aborted exn

text \<open>
  The \<^verbatim>\<open>while True\<close> loop. The inbound frames are the texts the client sends before
  it disconnects, each given by what \<^verbatim>\<open>json.loads\<close> makes of it; once they are
  used up, \<^verbatim>\<open>receive_text\<close> raises \<^verbatim>\<open>WebSocketDisconnect\<close>. The result holds the
  inbound frames that were never read.
\<close>

fun ws_loop ::
  "'a env \<Rightarrow> string \<Rightarrow> (exn + pyval) list \<Rightarrow> 'a world
     \<Rightarrow> (ending \<times> (exn + pyval) list) \<times> 'a world" where
  "ws_loop env user_id [] w = ((Disconnected, []), emit [Print_disconnected user_id] w)"
| "ws_loop env user_id (Inl e # rest) w =
     ((Aborted e, rest), emit [Print_error e, Send (Status_error e)] w)"
| "ws_loop env user_id (Inr request_data # rest) w =
     (case py_get request_data ''query'' (PStr []) of
        Inl e \<Rightarrow> ((Aborted e, rest), emit [Print_error e, Send (Status_error e)] w)
      | Inr query \<Rightarrow>
          if \<not> truthy query
            then ws_loop env user_id rest (emit [Send (Error_only ''Query is required'')] w)
          else ws_loop env user_id rest (ws_turn env user_id query w))"

text \<open>\<^verbatim>\<open>WebSocket /ws/{user_id}\<close>\<close>

definition websocket_endpoint ::
  "'a env \<Rightarrow> string \<Rightarrow> (exn + pyval) list \<Rightarrow> 'a world
     \<Rightarrow> (ending \<times> (exn + pyval) list) \<times> 'a world" where
  "websocket_endpoint env user_id inbound w = ws_loop env user_id inbound (emit [Accept] w)"


section \<open>Resetting the session (\<^verbatim>\<open>clear_conversation\<close>)\<close>

text \<open>\<^verbatim>\<open>class ConversationClearRequest(BaseModel)\<close>: \<^verbatim>\<open>user_id: Optional[str] = None\<close>.\<close>

record ConversationClearRequest =
  ccr_user_id :: "string option"

record ClearResponse =
  clr_message :: string
  clr_new_user_id :: string
  clr_timestamp :: string

definition read_uuid :: "'a env \<Rightarrow> 'a world \<Rightarrow> string \<times> 'a world" where
  "read_uuid env w = (uuid4 env (uuids w), w\<lparr>uuids := Suc (uuids w)\<rparr>)"

text \<open>\<^verbatim>\<open>POST /clear\<close>. \<^verbatim>\<open>request.user_id or str(uuid.uuid4())\<close> takes the generated id
  for \<^verbatim>\<open>None\<close> and for the empty string.\<close>

definition clear_conversation ::
  "'a env \<Rightarrow> ConversationClearRequest \<Rightarrow> 'a world \<Rightarrow> (http_error + ClearResponse) \<times> 'a world" where
  "clear_conversation env request w =
     (let w1 = w\<lparr>global_agent := None\<rparr>;
          (new_user_id, w2) =
            (case ccr_user_id request of
               Some u \<Rightarrow> if u \<noteq> [] then (u, w1) else read_uuid env w1
             | None \<Rightarrow> read_uuid env w1);
          (ts, w3) = read_clock env w2
      in (Inr \<lparr>clr_message = ''Conversation memory cleared'',
               clr_new_user_id = new_user_id,
               clr_timestamp = ts\<rparr>, w3))"


section \<open>The preference store\<close>

text \<open>Decimal digits of a natural number, as an f-string formats a count.\<close>

fun str_nat :: "nat \<Rightarrow> string" where
  "str_nat n =
     (if n < 10 then [''0123456789'' ! n]
      else str_nat (n div 10) @ [''0123456789'' ! (n mod 10)])"

declare str_nat.simps [simp del]

record DeleteResponse =
  del_message :: string
  del_user_id :: string
  del_deleted_count :: nat

definition delete_statement :: string where
  "delete_statement = ''DELETE FROM user_preferences WHERE user_id = ?''"

text \<open>\<^verbatim>\<open>DELETE /preferences/{user_id}\<close>. The statement raises when the table is
  missing; otherwise \<^verbatim>\<open>cursor.rowcount\<close> is the number of rows it removed.\<close>

definition delete_preferences ::
  "string \<Rightarrow> 'a world \<Rightarrow> (http_error + DeleteResponse) \<times> 'a world" where
  "delete_preferences user_id w =
     (case user_preferences w of
        None \<Rightarrow>
          (Inl (HTTPException 500 ''Failed to delete preferences: ''
                  (OperationalError ''no such table: user_preferences'')),
           emit [Sql_execute delete_statement [user_id]] w)
      | Some rows \<Rightarrow>
          (let deleted_count = length (filter (\<lambda>r. pref_user_id r = user_id) rows);
               w1 = emit [Sql_execute delete_statement [user_id], Sql_commit]
                      (w\<lparr>user_preferences :=
                           Some (filter (\<lambda>r. pref_user_id r \<noteq> user_id) rows)\<rparr>)
           in (Inr \<lparr>del_message =
                      ''Deleted '' @ str_nat deleted_count @ '' preferences for user '' @ user_id,
                    del_user_id = user_id,
                    del_deleted_count = deleted_count\<rparr>, w1)))"

text \<open>\<^verbatim>\<open>class PreferenceRequest(BaseModel)\<close>\<close>

record PreferenceRequest =
  prq_user_id :: string
  prq_priority_key :: string
  prq_priority_value :: string
  prq_context :: "string option"
  prq_feedback_text :: "string option"
  prq_source_query :: "string option"

text \<open>\<^verbatim>\<open>class PreferenceResponse(BaseModel)\<close>\<close>

record PreferenceResponse =
  prs_message :: string
  prs_user_id :: string
  prs_preferences :: "(string \<times> string) list"

definition upsert_statement :: string where
  "upsert_statement = ''INSERT OR REPLACE INTO user_preferences''"

definition select_statement :: string where
  "select_statement = ''SELECT priority_key, priority_value FROM user_preferences WHERE user_id = ?''"

text \<open>
  Modelled from the spec: \<^verbatim>\<open>sql_agent.update_user_priority\<close> is not among the
  sources. \<open>upsert(user, key, value, context?, feedback?, sourceQuery?) -> Ack\<close>:
  user, key and value are non-empty, and malformed input fails as \<open>InvalidArgument\<close>
  before any I/O; otherwise the (user, key) record is created or overwritten and
  stamped with the current time, and a storage failure surfaces to the caller. The
  text of the acknowledgement is not specified and is a parameter.
\<close>

definition update_user_priority ::
  "'a env \<Rightarrow> string \<Rightarrow> PreferenceRequest \<Rightarrow> 'a world \<Rightarrow> (exn + string) \<times> 'a world" where
  "update_user_priority env ack rq w =
     (if prq_user_id rq = [] then (Inl (InvalidArgument ''user_id''), w)
      else if prq_priority_key rq = [] then (Inl (InvalidArgument ''priority_key''), w)
      else if prq_priority_value rq = [] then (Inl (InvalidArgument ''priority_value''), w)
      else
        (case user_preferences w of
           None \<Rightarrow>
             (Inl (OperationalError ''no such table: user_preferences''),
              emit [Sql_execute upsert_statement [prq_user_id rq, prq_priority_key rq]] w)
         | Some rows \<Rightarrow>
             (case read_clock env w of
                (ts, w1) \<Rightarrow>
                  (Inr ack,
                   emit [Sql_execute upsert_statement [prq_user_id rq, prq_priority_key rq],
                         Sql_commit]
                     (w1\<lparr>user_preferences :=
                          Some (filter (\<lambda>r. \<not> (pref_user_id r = prq_user_id rq \<and>
                                               pref_priority_key r = prq_priority_key rq)) rows @
                                [\<lparr>pref_user_id = prq_user_id rq,
                                  pref_priority_key = prq_priority_key rq,
                                  pref_priority_value = prq_priority_value rq,
                                  pref_context = prq_context rq,
                                  pref_feedback_text = prq_feedback_text rq,
                                  pref_source_query = prq_source_query rq,
                                  pref_updated_at = ts\<rparr>])\<rparr>)))))"

text \<open>
  Modelled from the spec: \<^verbatim>\<open>sql_agent.get_user_priorities\<close> is not among the sources;
  it is taken together with the \<^verbatim>\<open>json.loads\<close> that follows it.
  \<open>listForUser(user) -> mapping(key -> value)\<close>: all live keys of the user, the empty
  mapping if there are none.
\<close>

definition get_user_priorities ::
  "string \<Rightarrow> 'a world \<Rightarrow> (exn + (string \<times> string) list) \<times> 'a world" where
  "get_user_priorities user_id w =
     (case user_preferences w of
        None \<Rightarrow>
          (Inl (OperationalError ''no such table: user_preferences''),
           emit [Sql_execute select_statement [user_id]] w)
      | Some rows \<Rightarrow>
          (Inr (map (\<lambda>r. (pref_priority_key r, pref_priority_value r))
                  (filter (\<lambda>r. pref_user_id r = user_id) rows)),
           emit [Sql_execute select_statement [user_id]] w))"

text \<open>\<^verbatim>\<open>POST /preferences\<close>\<close>

definition save_preference ::
  "'a env \<Rightarrow> string \<Rightarrow> PreferenceRequest \<Rightarrow> 'a world
     \<Rightarrow> (http_error + PreferenceResponse) \<times> 'a world" where
  "save_preference env ack request w =
     (case update_user_priority env ack request w of
        (Inl e, w1) \<Rightarrow> (Inl (HTTPException 500 ''Failed to save preference: '' e), w1)
      | (Inr result, w1) \<Rightarrow>
          (case get_user_priorities (prq_user_id request) w1 of
             (Inl e, w2) \<Rightarrow> (Inl (HTTPException 500 ''Failed to save preference: '' e), w2)
           | (Inr preferences, w2) \<Rightarrow>
               (Inr \<lparr>prs_message = result,
                     prs_user_id = prq_user_id request,
                     prs_preferences = preferences\<rparr>, w2)))"


section \<open>Reading an event sequence the way the loops do\<close>

text \<open>A tool call counts as an invocation of the SQL tool when its \<^verbatim>\<open>name\<close> is
  \<^verbatim>\<open>'sql_db_query'\<close>.\<close>

definition is_sql_call :: "pyval \<Rightarrow> bool" where
  "is_sql_call tc = (py_get tc ''name'' PNone = Inr (PStr sql_tool))"

text \<open>The tool calls the loop visits for an event: those of the last message.\<close>

definition event_tool_calls :: "event \<Rightarrow> pyval list" where
  "event_tool_calls ev =
     (case ev of
        None \<Rightarrow> []
      | Some [] \<Rightarrow> []
      | Some ms \<Rightarrow> (case msg_tool_calls (last ms) of None \<Rightarrow> [] | Some tcs \<Rightarrow> tcs))"

definition sql_invocations :: "event list \<Rightarrow> pyval list" where
  "sql_invocations evs = filter is_sql_call (concat (map event_tool_calls evs))"

text \<open>The field \<^verbatim>\<open>sql_query\<close> of a response as a Python value.\<close>

fun py_of_opt :: "string option \<Rightarrow> pyval" where
  "py_of_opt None = PNone"
| "py_of_opt (Some s) = PStr s"


text \<open>The content an event contributes to \<^verbatim>\<open>summary\<close>: that of its last message, when
  it is a string and the message has no name or a falsy one.\<close>

definition event_summary :: "event \<Rightarrow> string list" where
  "event_summary ev =
     (case ev of
        None \<Rightarrow> []
      | Some [] \<Rightarrow> []
      | Some ms \<Rightarrow>
          (case msg_content (last ms) of
             Some (PStr c) \<Rightarrow>
               if (case msg_name (last ms) of None \<Rightarrow> True | Some n \<Rightarrow> \<not> truthy n)
               then [c] else []
           | _ \<Rightarrow> []))"

definition summary_messages :: "event list \<Rightarrow> string list" where
  "summary_messages evs = concat (map event_summary evs)"

text \<open>The content an event contributes to \<^verbatim>\<open>raw_result\<close>: that of its last message,
  when it is a string and the message is named \<^verbatim>\<open>'sql_db_query'\<close>.\<close>

definition event_sql_result :: "event \<Rightarrow> string list" where
  "event_sql_result ev =
     (case ev of
        None \<Rightarrow> []
      | Some [] \<Rightarrow> []
      | Some ms \<Rightarrow>
          (case msg_content (last ms) of
             Some (PStr c) \<Rightarrow> if msg_name (last ms) = Some (PStr sql_tool) then [c] else []
           | _ \<Rightarrow> []))"

definition sql_results :: "event list \<Rightarrow> string list" where
  "sql_results evs = concat (map event_sql_result evs)"

text \<open>The frames of the streaming channel, by kind.\<close>

fun is_progress :: "frame \<Rightarrow> bool" where
  "is_progress (Type_tool_call n a) = True"
| "is_progress (Type_raw_result c) = True"
| "is_progress (Type_message c) = True"
| "is_progress f = False"

fun is_terminal :: "frame \<Rightarrow> bool" where
  "is_terminal (Status_completed q t) = True"
| "is_terminal (Status_error e) = True"
| "is_terminal f = False"

fun sent :: "effect \<Rightarrow> frame list" where
  "sent (Send f) = [f]"
| "sent e = []"

definition sent_frames :: "effect list \<Rightarrow> frame list" where
  "sent_frames es = concat (map sent es)"

fun invocation :: "effect \<Rightarrow> (string option \<times> string) list" where
  "invocation (Invoke t i) = [(t, i)]"
| "invocation e = []"

definition invocations :: "effect list \<Rightarrow> (string option \<times> string) list" where
  "invocations es = concat (map invocation es)"

text \<open>The frames a well-formed event stands for: one \<^verbatim>\<open>tool_call\<close> frame for each
  tool call of its last message, then the frame of its content.\<close>

definition call_frame :: "pyval \<Rightarrow> frame list" where
  "call_frame tc =
     (case tc of
        PDict kvs \<Rightarrow>
          [Type_tool_call (case map_of kvs ''name'' of None \<Rightarrow> PNone | Some n \<Rightarrow> n)
             (case map_of kvs ''args'' of None \<Rightarrow> PDict [] | Some a \<Rightarrow> a)]
      | _ \<Rightarrow> [])"

definition event_frames :: "event \<Rightarrow> frame list" where
  "event_frames ev =
     concat (map call_frame (event_tool_calls ev)) @
     map Type_raw_result (event_sql_result ev) @
     map Type_message (event_summary ev)"

text \<open>The run that the engine yields in a streaming turn, if the turn gets as far
  as calling it.\<close>

definition turn_run :: "'a env \<Rightarrow> string \<Rightarrow> pyval \<Rightarrow> 'a world \<Rightarrow> run option" where
  "turn_run env user_id query w =
     (case get_or_create_agent env (emit [Send (Status_processing user_id query)] w) of
        (Inl e, w1) \<Rightarrow> None
      | (Inr agent, w1) \<Rightarrow>
          Some (fst (agent_stream env agent (Some user_id)
                       (enhanced_input user_id (py_str env query)))))"


section \<open>Sample inputs\<close>


definition ai_msg :: "pyval list \<Rightarrow> string \<Rightarrow> msg" where
  "ai_msg tcs c = \<lparr>msg_tool_calls = Some tcs, msg_content = Some (PStr c), msg_name = Some PNone\<rparr>"

definition tool_msg :: "string \<Rightarrow> string \<Rightarrow> msg" where
  "tool_msg n c = \<lparr>msg_tool_calls = None, msg_content = Some (PStr c), msg_name = Some (PStr n)\<rparr>"

text \<open>An engine whose state counts its turns and that answers every turn with the
  given run.\<close>

definition sample_env :: "run \<Rightarrow> nat env" where
  "sample_env r =
     \<lparr>create_agent = Inr 0,
      agent_stream = (\<lambda>a t i. (r, Suc a)),
      now_isoformat = (\<lambda>n. ''2025-01-01T00:00:00.'' @ str_nat n),
      uuid4 = (\<lambda>n. ''00000000-0000-4000-8000-'' @ str_nat n),
      str_of_value = type_name\<rparr>"

definition sample_world :: "nat world" where
  "sample_world =
     \<lparr>global_agent = None, user_preferences = Some [], trace = [], clock = 0, uuids = 0\<rparr>"



text \<open>A turn whose last message from the engine has empty content.\<close>

definition empty_answer :: "event list" where
  "empty_answer = [Some [ai_msg [] ''Working on it''], Some [ai_msg [] []]]"

text \<open>A turn with one call of another tool and a final message.\<close>

definition one_call :: "event list" where
  "one_call =
     [Some [ai_msg [PDict [(''name'', PStr ''sql_db_list_tables''), (''args'', PDict [])]] []],
      Some [tool_msg ''sql_db_list_tables'' ''users, orders''],
      Some [ai_msg [] ''There are two tables'']]"

definition sample_row :: "string \<Rightarrow> string \<Rightarrow> string \<Rightarrow> pref_row" where
  "sample_row u k v =
     \<lparr>pref_user_id = u, pref_priority_key = k, pref_priority_value = v,
      pref_context = None, pref_feedback_text = None, pref_source_query = None,
      pref_updated_at = ''2025-01-01T00:00:00''\<rparr>"

definition sample_rows :: "pref_row list" where
  "sample_rows =
     [sample_row ''alice'' ''cost'' ''low'',
      sample_row ''bob'' ''cost'' ''high'',
      sample_row ''alice'' ''coverage'' ''high'']"


text \<open>An engine that answers every turn with one message, which repeats the thread id
  and the input text it was called with.\<close>

definition echo_env :: "nat env" where
  "echo_env =
     \<lparr>create_agent = Inr 0,
      agent_stream =
        (\<lambda>a t i. (Run [Some [ai_msg [] (str_opt t @ '' got '' @ i)]] None, Suc a)),
      now_isoformat = (\<lambda>n. ''2025-01-01T00:00:00.'' @ str_nat n),
      uuid4 = (\<lambda>n. ''00000000-0000-4000-8000-'' @ str_nat n),
      str_of_value = type_name\<rparr>"

section \<open>Properties of the event stream interpreter\<close>


lemma scan_tool_calls_last:
  "scan_tool_calls sq tcs = Inr sq' \<Longrightarrow>
     (if filter is_sql_call tcs = [] then sq' = sq
      else call_query (last (filter is_sql_call tcs)) = Inr sq')"
proof (induction tcs arbitrary: sq)
  case Nil
  then show ?case by simp
next
  case (Cons tc tcs)
  show ?case
  proof (cases "is_sql_call tc")
    case True
    then obtain q where q: "call_query tc = Inr q" "scan_tool_calls q tcs = Inr sq'"
      using Cons.prems by (auto simp: is_sql_call_def split: sum.splits if_splits)
    from Cons.IH[OF q(2)] q(1) True show ?thesis by (auto split: if_splits)
  next
    case False
    then have "scan_tool_calls sq tcs = Inr sq'"
      using Cons.prems by (auto simp: is_sql_call_def split: sum.splits if_splits)
    from Cons.IH[OF this] False show ?thesis by (auto split: if_splits)
  qed
qed

lemma sql_query_scan_content [simp]: "sql_query (scan_content a m) = sql_query a"
  by (simp add: scan_content_def split: option.splits pyval.splits)

lemma scan_event_sql:
  "scan_event a ev = Inr a' \<Longrightarrow>
     (if filter is_sql_call (event_tool_calls ev) = [] then sql_query a' = sql_query a
      else call_query (last (filter is_sql_call (event_tool_calls ev))) = Inr (sql_query a'))"
  unfolding scan_event_def event_tool_calls_def
  by (auto simp: Let_def split: option.splits list.splits sum.splits dest!: scan_tool_calls_last)

lemma scan_events_sql:
  "scan_events a evs = Inr a' \<Longrightarrow>
     (if sql_invocations evs = [] then sql_query a' = sql_query a
      else call_query (last (sql_invocations evs)) = Inr (sql_query a'))"
proof (induction evs arbitrary: a)
  case Nil
  then show ?case by (simp add: sql_invocations_def)
next
  case (Cons ev evs)
  then obtain a1 where a1: "scan_event a ev = Inr a1" "scan_events a1 evs = Inr a'"
    by (auto split: sum.splits)
  from scan_event_sql[OF a1(1)] Cons.IH[OF a1(2)] show ?case
    by (auto simp: sql_invocations_def split: if_splits)
qed

lemma clock_get_or_create_agent:
  "get_or_create_agent env w = (res, w1) \<Longrightarrow> clock w1 = clock w"
  by (auto simp: get_or_create_agent_def split: option.splits sum.splits)

lemma execute_query_InrD:
  assumes "execute_query env request w = (Inr resp, w')"
    and "get_or_create_agent env w = (Inr agent, w1)"
    and "agent_stream env agent (qr_user_id request)
           (enhanced_input (str_opt (qr_user_id request)) (qr_query request)) = (r, agent')"
  shows "\<exists>a. scan_run r = Inr a \<and>
           make_response request a (now_isoformat env (clock w)) = Inr resp"
  using assms clock_get_or_create_agent[OF assms(2)]
  by (auto simp: execute_query_def Let_def read_clock_def emit_def split: sum.splits)

lemma scan_run_InrD:
  "scan_run r = Inr a \<Longrightarrow> scan_events acc_init (events r) = Inr a"
  by (auto simp: scan_run_def split: sum.splits option.splits)

lemma make_response_sql:
  "make_response request a ts = Inr resp \<Longrightarrow> sql_query a = py_of_opt (resp_sql_query resp)"
  by (cases "sql_query a") (auto simp: make_response_def split: sum.splits)



lemma scan_content_fields:
  "m = last ms \<Longrightarrow> ms \<noteq> [] \<Longrightarrow>
   summary (scan_content a m) =
     (if event_summary (Some ms) = [] then summary a else last (event_summary (Some ms))) \<and>
   raw_result (scan_content a m) =
     (if event_sql_result (Some ms) = [] then raw_result a
      else Some (last (event_sql_result (Some ms))))"
  by (cases ms)
     (auto simp: scan_content_def event_summary_def event_sql_result_def sql_tool_def
        split: option.splits pyval.splits)

lemma scan_event_fields:
  "scan_event a ev = Inr a' \<Longrightarrow>
   summary a' = (if event_summary ev = [] then summary a else last (event_summary ev)) \<and>
   raw_result a' =
     (if event_sql_result ev = [] then raw_result a else Some (last (event_sql_result ev)))"
proof (cases ev)
  case None
  assume "scan_event a ev = Inr a'"
  with None show ?thesis
    by (simp add: scan_event_def event_summary_def event_sql_result_def)
next
  case (Some ms)
  assume *: "scan_event a ev = Inr a'"
  with Some have ne: "ms \<noteq> []" by (auto simp: scan_event_def)
  from * Some ne obtain sq where "a' = scan_content (a\<lparr>sql_query := sq\<rparr>) (last ms)"
    by (cases ms) (auto simp: scan_event_def Let_def split: sum.splits)
  with scan_content_fields[OF refl ne, of "a\<lparr>sql_query := sq\<rparr>"] Some show ?thesis by simp
qed

lemma scan_events_fields:
  "scan_events a evs = Inr a' \<Longrightarrow>
   summary a' = (if summary_messages evs = [] then summary a else last (summary_messages evs)) \<and>
   raw_result a' =
     (if sql_results evs = [] then raw_result a else Some (last (sql_results evs)))"
proof (induction evs arbitrary: a)
  case Nil
  then show ?case by (simp add: summary_messages_def sql_results_def)
next
  case (Cons ev evs)
  then obtain a1 where a1: "scan_event a ev = Inr a1" "scan_events a1 evs = Inr a'"
    by (auto split: sum.splits)
  from scan_event_fields[OF a1(1)] Cons.IH[OF a1(2)] show ?case
    by (auto simp: summary_messages_def sql_results_def)
qed

lemma make_response_fields:
  "make_response request a ts = Inr resp \<Longrightarrow>
   resp_summary resp = (if summary a \<noteq> [] then summary a else fallback_summary) \<and>
   resp_raw_result resp = raw_result a \<and> resp_query resp = qr_query request \<and>
   qr_user_id request = Some (resp_user_id resp) \<and> resp_timestamp resp = ts"
  by (cases "qr_user_id request") (auto simp: make_response_def split: sum.splits)

text \<open>
  Claim C2, as the code has it. The summary of the response is the fixed fallback
  \<^verbatim>\<open>"Query processed successfully"\<close> when the event sequence holds no message that is
  eligible for the summary (string content, no name or a falsy one) and also when the
  last such message has empty content; otherwise it is the content of the last such
  message. The SQL text is absent when no invocation of the SQL tool occurred, and the
  raw result is absent when no result of the SQL tool occurred.
\<close>

theorem summary_falls_back_when_empty:
  assumes "get_or_create_agent env w = (Inr agent, w1)"
    and "agent_stream env agent (qr_user_id request)
           (enhanced_input (str_opt (qr_user_id request)) (qr_query request)) = (r, agent')"
    and "execute_query env request w = (Inr resp, w')"
  shows "resp_summary resp =
           (if summary_messages (events r) = [] \<or> last (summary_messages (events r)) = []
            then fallback_summary else last (summary_messages (events r))) \<and>
         (sql_invocations (events r) = [] \<longrightarrow> resp_sql_query resp = None) \<and>
         (sql_results (events r) = [] \<longrightarrow> resp_raw_result resp = None)"
proof -
  obtain a where a: "scan_run r = Inr a"
      "make_response request a (now_isoformat env (clock w)) = Inr resp"
    using execute_query_InrD[OF assms(3) assms(1) assms(2)] by blast
  note ev = scan_run_InrD[OF a(1)]
  have s: "summary a =
      (if summary_messages (events r) = [] then [] else last (summary_messages (events r)))"
    and rr: "raw_result a =
      (if sql_results (events r) = [] then None else Some (last (sql_results (events r))))"
    using scan_events_fields[OF ev] by (simp_all add: acc_init_def)
  have q: "sql_invocations (events r) = [] \<longrightarrow> sql_query a = PNone"
    using scan_events_sql[OF ev] by (simp add: acc_init_def)
  have "sql_invocations (events r) = [] \<longrightarrow> resp_sql_query resp = None"
    using q make_response_sql[OF a(2)] by (cases "resp_sql_query resp") auto
  with s rr make_response_fields[OF a(2)] show ?thesis by simp
qed

lemmas exec_defs = execute_query_def get_or_create_agent_def scan_run_def scan_event_def
        scan_content_def call_query_def make_response_def read_clock_def emit_def acc_init_def
        Let_def str_nat.simps

text \<open>
  Claim C2 as stated fails: here the sequence holds eligible messages, the last of
  them has empty content, and the summary is the fallback, not that content.
\<close>

theorem summary_is_last_message_counterexample:
  "summary_messages empty_answer = [''Working on it'', []] \<and>
   fst (execute_query (sample_env (Run empty_answer None))
          \<lparr>qr_query = ''q'', qr_user_id = Some ''u''\<rparr> sample_world) =
     Inr \<lparr>resp_user_id = ''u'', resp_query = ''q'',
          resp_summary = ''Query processed successfully'',
          resp_sql_query = None, resp_raw_result = None,
          resp_timestamp = ''2025-01-01T00:00:00.0'', resp_model = ''Gemini 2.0 Flash''\<rparr> \<and>
   ''Query processed successfully'' \<noteq> last (summary_messages empty_answer)"
  by (simp add: summary_messages_def event_summary_def empty_answer_def exec_defs
      fallback_summary_def sample_env_def sample_world_def ai_msg_def)

text \<open>
  The amended claim C2 at a turn with one call of another tool and a final message.
\<close>

theorem summary_falls_back_when_empty_witness:
  "resp_summary
     \<lparr>resp_user_id = ''u'', resp_query = ''q'', resp_summary = ''There are two tables'',
      resp_sql_query = None, resp_raw_result = None,
      resp_timestamp = ''2025-01-01T00:00:00.0'', resp_model = ''Gemini 2.0 Flash''\<rparr> =
     last (summary_messages one_call) \<and>
   sql_invocations one_call = [] \<and> sql_results one_call = [] \<and>
   resp_sql_query
     \<lparr>resp_user_id = ''u'', resp_query = ''q'', resp_summary = ''There are two tables'',
      resp_sql_query = None, resp_raw_result = None,
      resp_timestamp = ''2025-01-01T00:00:00.0'', resp_model = ''Gemini 2.0 Flash''\<rparr> = None"
proof -
  let ?env = "sample_env (Run one_call None)"
  let ?rq = "\<lparr>qr_query = ''q'', qr_user_id = Some ''u''\<rparr>"
  have h1: "get_or_create_agent ?env sample_world =
      (Inr 0, sample_world\<lparr>global_agent := Some 0\<rparr>)"
    by (simp add: get_or_create_agent_def sample_env_def sample_world_def)
  have h2: "agent_stream ?env 0 (qr_user_id ?rq)
      (enhanced_input (str_opt (qr_user_id ?rq)) (qr_query ?rq)) = (Run one_call None, Suc 0)"
    by (simp add: sample_env_def)
  have h3: "execute_query ?env ?rq sample_world =
      (Inr \<lparr>resp_user_id = ''u'', resp_query = ''q'', resp_summary = ''There are two tables'',
        resp_sql_query = None, resp_raw_result = None,
        resp_timestamp = ''2025-01-01T00:00:00.0'', resp_model = ''Gemini 2.0 Flash''\<rparr>,
       \<lparr>global_agent = Some 1, user_preferences = Some [],
        trace = [Invoke (Some ''u'') (enhanced_input ''u'' ''q'')], clock = 1, uuids = 0\<rparr>)"
    by (simp add: exec_defs sample_env_def sample_world_def one_call_def ai_msg_def tool_msg_def
        sql_tool_def)
  have s: "summary_messages one_call = [[], ''There are two tables'']"
    by (simp add: summary_messages_def event_summary_def one_call_def ai_msg_def tool_msg_def)
  have i: "sql_invocations one_call = []"
    by (simp add: sql_invocations_def event_tool_calls_def is_sql_call_def one_call_def
        ai_msg_def tool_msg_def sql_tool_def)
  have q: "sql_results one_call = []"
    by (simp add: sql_results_def event_sql_result_def one_call_def ai_msg_def tool_msg_def
        sql_tool_def)
  from summary_falls_back_when_empty[OF h1 h2 h3] s i q show ?thesis by simp
qed

section \<open>Properties of the query orchestrator\<close>

text \<open>
  Claim C8. In a query turn (one in which the engine is available) the engine is
  called with the utterance textually prefixed by the user identifier,
  \<^verbatim>\<open>[User ID: <id>]\<close> and a line break: what the operation returns is what the loop
  makes of the engine's answer to that text, the engine is left in the state that
  answering it produced, and that call is the one invocation of the turn. The
  response carries the utterance as it came.
\<close>

theorem engine_input_is_prefixed:
  assumes "get_or_create_agent env w = (Inr agent, w1)"
    and "agent_stream env agent (qr_user_id request)
           (''[User ID: '' @ str_opt (qr_user_id request) @ '']'' @ [CHR 0x0A] @
            qr_query request) = (r, agent')"
  shows "fst (execute_query env request w) =
           (case scan_run r of
              Inl e \<Rightarrow> Inl (query_failed e)
            | Inr a \<Rightarrow>
                (case make_response request a (now_isoformat env (clock w)) of
                   Inl e \<Rightarrow> Inl (query_failed e)
                 | Inr resp \<Rightarrow> Inr resp)) \<and>
         global_agent (snd (execute_query env request w)) = Some agent' \<and>
         invocations (trace (snd (execute_query env request w))) =
           invocations (trace w) @
           [(qr_user_id request,
             ''[User ID: '' @ str_opt (qr_user_id request) @ '']'' @ [CHR 0x0A] @
             qr_query request)] \<and>
         (\<forall>resp. fst (execute_query env request w) = Inr resp \<longrightarrow>
            resp_query resp = qr_query request)"
proof -
  have k: "trace w1 = trace w" "clock w1 = clock w"
    using assms(1) by (auto simp: get_or_create_agent_def split: option.splits sum.splits)
  have s: "agent_stream env agent (qr_user_id request)
      (enhanced_input (str_opt (qr_user_id request)) (qr_query request)) = (r, agent')"
    using assms(2) by (simp add: enhanced_input_def)
  have 1: "fst (execute_query env request w) =
      (case scan_run r of
         Inl e \<Rightarrow> Inl (query_failed e)
       | Inr a \<Rightarrow>
           (case make_response request a (now_isoformat env (clock w)) of
              Inl e \<Rightarrow> Inl (query_failed e)
            | Inr resp \<Rightarrow> Inr resp))"
    using assms(1) s k
    by (simp add: execute_query_def Let_def emit_def read_clock_def split: sum.splits)
  have 2: "global_agent (snd (execute_query env request w)) = Some agent'"
    using assms(1) s
    by (simp add: execute_query_def Let_def emit_def read_clock_def split: sum.splits)
  have 3: "trace (snd (execute_query env request w)) =
      trace w @ [Invoke (qr_user_id request)
        (enhanced_input (str_opt (qr_user_id request)) (qr_query request))]"
    using assms(1) s k
    by (simp add: execute_query_def Let_def emit_def read_clock_def split: sum.splits)
  have 4: "resp_query resp = qr_query request"
    if ok: "fst (execute_query env request w) = Inr resp" for resp
    using ok 1 make_response_fields[of request _ "now_isoformat env (clock w)" resp]
    by (auto split: sum.splits)
  from 1 2 3 4 show ?thesis by (simp add: invocations_def enhanced_input_def)
qed

text \<open>
  Claim C8 at a turn of user \<^verbatim>\<open>alice\<close> with an engine that repeats what it is given:
  the summary shows the prefixed text, the response the utterance without the prefix.
\<close>

theorem engine_input_is_prefixed_witness:
  "fst (execute_query echo_env
          \<lparr>qr_query = ''how many tables?'', qr_user_id = Some ''alice''\<rparr> sample_world) =
     Inr \<lparr>resp_user_id = ''alice'', resp_query = ''how many tables?'',
          resp_summary = ''alice got [User ID: alice]'' @ [CHR 0x0A] @ ''how many tables?'',
          resp_sql_query = None, resp_raw_result = None,
          resp_timestamp = ''2025-01-01T00:00:00.0'', resp_model = ''Gemini 2.0 Flash''\<rparr> \<and>
   global_agent (snd (execute_query echo_env
          \<lparr>qr_query = ''how many tables?'', qr_user_id = Some ''alice''\<rparr> sample_world)) =
     Some 1 \<and>
   invocations (trace (snd (execute_query echo_env
          \<lparr>qr_query = ''how many tables?'', qr_user_id = Some ''alice''\<rparr> sample_world))) =
     [(Some ''alice'', ''[User ID: alice]'' @ [CHR 0x0A] @ ''how many tables?'')]"
proof -
  let ?rq = "\<lparr>qr_query = ''how many tables?'', qr_user_id = Some ''alice''\<rparr>"
  let ?r = "Run [Some [ai_msg []
      (''alice got [User ID: alice]'' @ [CHR 0x0A] @ ''how many tables?'')]] None"
  have h1: "get_or_create_agent echo_env sample_world =
      (Inr 0, sample_world\<lparr>global_agent := Some 0\<rparr>)"
    by (simp add: get_or_create_agent_def echo_env_def sample_world_def)
  have h2: "agent_stream echo_env 0 (qr_user_id ?rq)
      (''[User ID: '' @ str_opt (qr_user_id ?rq) @ '']'' @ [CHR 0x0A] @ qr_query ?rq) =
      (?r, Suc 0)"
    by (simp add: echo_env_def)
  have s: "scan_run (Run [Some [ai_msg [] c]] None) =
      Inr \<lparr>summary = c, sql_query = PNone, raw_result = None\<rparr>" for c
    by (simp add: scan_run_def scan_event_def scan_content_def acc_init_def Let_def ai_msg_def)
  have c: "now_isoformat echo_env (clock sample_world) = ''2025-01-01T00:00:00.0''"
    by (simp add: echo_env_def sample_world_def str_nat.simps)
  have i: "invocations (trace sample_world) = []"
    by (simp add: invocations_def sample_world_def)
  from engine_input_is_prefixed[OF h1 h2] show ?thesis
    by (simp add: s c i make_response_def fallback_summary_def)
qed




section \<open>Properties of the preference store and of the session reset\<close>

text \<open>
  Claim C6. For a user with N rows in the preference table, \<open>delete_preferences\<close>
  removes all N rows (and no row of another user) and returns the count N; a second
  call right after it succeeds with the count 0 and changes no row.
\<close>

theorem delete_all_removes_and_counts:
  assumes "user_preferences w = Some rows"
  shows "\<exists>resp w1 resp2 w2.
           delete_preferences user_id w = (Inr resp, w1) \<and>
           del_deleted_count resp = length (filter (\<lambda>r. pref_user_id r = user_id) rows) \<and>
           user_preferences w1 = Some (filter (\<lambda>r. pref_user_id r \<noteq> user_id) rows) \<and>
           delete_preferences user_id w1 = (Inr resp2, w2) \<and>
           del_deleted_count resp2 = 0 \<and>
           user_preferences w2 = user_preferences w1"
  using assms
  by (simp add: delete_preferences_def Let_def emit_def)

text \<open>
  Claim C6 at a table with two rows of \<^verbatim>\<open>alice\<close> and one of \<^verbatim>\<open>bob\<close>.
\<close>

theorem delete_all_removes_and_counts_witness:
  "\<exists>resp w1 resp2 w2.
     delete_preferences ''alice'' (sample_world\<lparr>user_preferences := Some sample_rows\<rparr>) =
       (Inr resp, w1) \<and>
     del_deleted_count resp = length (filter (\<lambda>r. pref_user_id r = ''alice'') sample_rows) \<and>
     user_preferences w1 = Some (filter (\<lambda>r. pref_user_id r \<noteq> ''alice'') sample_rows) \<and>
     delete_preferences ''alice'' w1 = (Inr resp2, w2) \<and>
     del_deleted_count resp2 = 0 \<and>
     user_preferences w2 = user_preferences w1"
proof -
  have h: "user_preferences (sample_world\<lparr>user_preferences := Some sample_rows\<rparr>) =
      Some sample_rows" by simp
  show ?thesis by (rule delete_all_removes_and_counts[OF h])
qed

text \<open>
  Claim C7, as the code has it. \<open>clear_conversation\<close> always succeeds and, whatever
  the request holds, unsets the one shared engine instance; it leaves the preference
  table and the effects so far as they are. It returns the user id of the request
  when that is a non-empty string, and a freshly generated id when the request holds
  no user id or the empty string, together with a timestamp.
\<close>

theorem reset_clears_shared_engine:
  "\<exists>resp w'.
     clear_conversation env request w = (Inr resp, w') \<and>
     global_agent w' = None \<and>
     user_preferences w' = user_preferences w \<and>
     trace w' = trace w \<and>
     clr_new_user_id resp =
       (case ccr_user_id request of
          None \<Rightarrow> uuid4 env (uuids w)
        | Some u \<Rightarrow> if u = [] then uuid4 env (uuids w) else u) \<and>
     clr_timestamp resp = now_isoformat env (clock w)"
  by (simp add: clear_conversation_def Let_def read_uuid_def read_clock_def
      split: option.splits)

text \<open>
  Claim C7 as stated fails for a request whose user id is the empty string: the id
  returned is a generated one, not the one given.
\<close>

theorem reset_echoes_given_id_counterexample:
  "ccr_user_id \<lparr>ccr_user_id = Some []\<rparr> = Some [] \<and>
   fst (clear_conversation (sample_env (Run [] None)) \<lparr>ccr_user_id = Some []\<rparr>
          (sample_world\<lparr>global_agent := Some 3\<rparr>)) =
     Inr \<lparr>clr_message = ''Conversation memory cleared'',
          clr_new_user_id = ''00000000-0000-4000-8000-0'',
          clr_timestamp = ''2025-01-01T00:00:00.0''\<rparr> \<and>
   ''00000000-0000-4000-8000-0'' \<noteq> ([] :: string)"
  by (simp add: clear_conversation_def Let_def read_uuid_def read_clock_def sample_env_def
      sample_world_def str_nat.simps)

text \<open>
  The amended claim C7 at a request of user \<^verbatim>\<open>alice\<close>.
\<close>

theorem reset_clears_shared_engine_witness:
  "\<exists>resp w'.
     clear_conversation (sample_env (Run [] None)) \<lparr>ccr_user_id = Some ''alice''\<rparr>
       (sample_world\<lparr>global_agent := Some 3, user_preferences := Some sample_rows\<rparr>) =
       (Inr resp, w') \<and>
     global_agent w' = None \<and>
     user_preferences w' = Some sample_rows \<and>
     trace w' = [] \<and>
     clr_new_user_id resp = ''alice'' \<and>
     clr_timestamp resp = ''2025-01-01T00:00:00.0''"
  using reset_clears_shared_engine[of "sample_env (Run [] None)"
      "\<lparr>ccr_user_id = Some ''alice''\<rparr>"
      "sample_world\<lparr>global_agent := Some 3, user_preferences := Some sample_rows\<rparr>"]
  by (simp add: sample_env_def sample_world_def str_nat.simps)

text \<open>
  Claim C5. When the user identifier or the priority key of an upsert is empty, the
  store rejects it with \<open>InvalidArgument\<close> and \<open>save_preference\<close> fails with that
  exception as its cause; the whole state is left as it was, so no statement reached
  the database. A successful write has a non-empty user, key and value.
\<close>

theorem upsert_rejects_empty_user_or_key:
  "(prq_user_id rq = [] \<or> prq_priority_key rq = [] \<longrightarrow>
      (\<exists>f. update_user_priority env ack rq w = (Inl (InvalidArgument f), w) \<and>
           save_preference env ack rq w =
             (Inl (HTTPException 500 ''Failed to save preference: '' (InvalidArgument f)), w))) \<and>
   (\<forall>resp w'. save_preference env ack rq w = (Inr resp, w') \<longrightarrow>
      prq_user_id rq \<noteq> [] \<and> prq_priority_key rq \<noteq> [] \<and> prq_priority_value rq \<noteq> [])"
  by (auto simp: save_preference_def update_user_priority_def
      split: if_splits prod.splits sum.splits option.splits)

text \<open>
  Claim C5 at a request with an empty user identifier and at a well-formed one.
\<close>

theorem upsert_rejects_empty_user_or_key_witness:
  "save_preference (sample_env (Run [] None)) ''Saved''
     \<lparr>prq_user_id = [], prq_priority_key = ''cost'', prq_priority_value = ''high'',
      prq_context = None, prq_feedback_text = None, prq_source_query = None\<rparr>
     (sample_world\<lparr>user_preferences := Some sample_rows\<rparr>) =
     (Inl (HTTPException 500 ''Failed to save preference: '' (InvalidArgument ''user_id'')),
      sample_world\<lparr>user_preferences := Some sample_rows\<rparr>) \<and>
   (\<exists>resp w'.
      save_preference (sample_env (Run [] None)) ''Saved''
        \<lparr>prq_user_id = ''alice'', prq_priority_key = ''cost'', prq_priority_value = ''high'',
         prq_context = None, prq_feedback_text = None, prq_source_query = None\<rparr>
        (sample_world\<lparr>user_preferences := Some sample_rows\<rparr>) = (Inr resp, w') \<and>
      prs_preferences resp = [(''coverage'', ''high''), (''cost'', ''high'')]) \<and>
   ''alice'' \<noteq> [] \<and> ''cost'' \<noteq> [] \<and> ''high'' \<noteq> []"
proof -
  let ?env = "sample_env (Run [] None)"
  let ?w = "sample_world\<lparr>user_preferences := Some sample_rows\<rparr>"
  let ?bad = "\<lparr>prq_user_id = [], prq_priority_key = ''cost'', prq_priority_value = ''high'',
      prq_context = None, prq_feedback_text = None, prq_source_query = None\<rparr>"
  let ?good = "\<lparr>prq_user_id = ''alice'', prq_priority_key = ''cost'',
      prq_priority_value = ''high'',
      prq_context = None, prq_feedback_text = None, prq_source_query = None\<rparr>"
  have b: "prq_user_id ?bad = [] \<or> prq_priority_key ?bad = []" by simp
  have u: "update_user_priority ?env ''Saved'' ?bad ?w = (Inl (InvalidArgument ''user_id''), ?w)"
    by (simp add: update_user_priority_def)
  from upsert_rejects_empty_user_or_key[of ?bad ?env "''Saved''" ?w] b u
  have 1: "save_preference ?env ''Saved'' ?bad ?w =
      (Inl (HTTPException 500 ''Failed to save preference: '' (InvalidArgument ''user_id'')), ?w)"
    by auto
  have g: "\<exists>resp w'. save_preference ?env ''Saved'' ?good ?w = (Inr resp, w') \<and>
      prs_preferences resp = [(''coverage'', ''high''), (''cost'', ''high'')]"
    by (simp add: save_preference_def update_user_priority_def get_user_priorities_def
        read_clock_def emit_def sample_world_def sample_rows_def sample_row_def)
  then obtain resp w' where "save_preference ?env ''Saved'' ?good ?w = (Inr resp, w')" by blast
  with upsert_rejects_empty_user_or_key[of ?good ?env "''Saved''" ?w]
  have 2: "''alice'' \<noteq> [] \<and> ''cost'' \<noteq> [] \<and> ''high'' \<noteq> []" by simp
  from 1 g 2 show ?thesis by blast
qed

section \<open>Properties of the streaming channel\<close>

lemma ws_tool_calls_result: "snd (ws_tool_calls sq tcs) = scan_tool_calls sq tcs"
proof (induction tcs arbitrary: sq)
  case Nil
  then show ?case by simp
next
  case (Cons tc tcs)
  show ?case
  proof (cases tc)
    case (PDict kvs)
    then show ?thesis
      using Cons.IH by (auto simp: case_prod_unfold split: sum.splits)
  qed simp_all
qed

lemma call_frame_PDict:
  "call_frame (PDict kvs) =
     [Type_tool_call (case map_of kvs ''name'' of None \<Rightarrow> PNone | Some n \<Rightarrow> n)
        (case map_of kvs ''args'' of None \<Rightarrow> PDict [] | Some a \<Rightarrow> a)]"
  by (simp add: call_frame_def)

lemma ws_tool_calls_frames:
  "\<exists>more. concat (map call_frame tcs) = fst (ws_tool_calls sq tcs) @ more \<and>
     (\<forall>sq'. snd (ws_tool_calls sq tcs) = Inr sq' \<longrightarrow> more = [])"
proof (induction tcs arbitrary: sq)
  case Nil
  then show ?case by simp
next
  case (Cons tc tcs)
  show ?case
  proof (cases tc)
    case (PDict kvs)
    show ?thesis
    proof (cases "(case map_of kvs ''name'' of None \<Rightarrow> PNone | Some n \<Rightarrow> n) = PStr sql_tool")
      case False
      obtain more where "concat (map call_frame tcs) = fst (ws_tool_calls sq tcs) @ more"
        "\<forall>sq'. snd (ws_tool_calls sq tcs) = Inr sq' \<longrightarrow> more = []"
        using Cons.IH[of sq] by blast
      with PDict False show ?thesis
        by (simp add: call_frame_PDict case_prod_unfold)
    next
      case True
      show ?thesis
      proof (cases "call_query tc")
        case (Inl e)
        with PDict True show ?thesis by (simp add: call_frame_PDict)
      next
        case (Inr q)
        obtain more where "concat (map call_frame tcs) = fst (ws_tool_calls q tcs) @ more"
          "\<forall>sq'. snd (ws_tool_calls q tcs) = Inr sq' \<longrightarrow> more = []"
          using Cons.IH[of q] by blast
        with PDict True Inr show ?thesis
          by (simp add: call_frame_PDict case_prod_unfold)
      qed
    qed
  qed simp_all
qed

lemma ws_tool_calls_progress: "list_all is_progress (fst (ws_tool_calls sq tcs))"
proof (induction tcs arbitrary: sq)
  case Nil
  then show ?case by simp
next
  case (Cons tc tcs)
  show ?case
  proof (cases tc)
    case (PDict kvs)
    then show ?thesis
      using Cons.IH by (auto simp: case_prod_unfold split: sum.splits)
  qed simp_all
qed

lemma ws_content_frames:
  "ms \<noteq> [] \<Longrightarrow>
   fst (ws_content v (last ms)) =
     map Type_raw_result (event_sql_result (Some ms)) @ map Type_message (event_summary (Some ms))"
  by (cases ms)
     (auto simp: ws_content_def event_summary_def event_sql_result_def sql_tool_def
        split: option.splits pyval.splits)

lemma ws_content_sql [simp]: "v_sql_query (snd (ws_content v m)) = v_sql_query v"
  by (simp add: ws_content_def split: option.splits pyval.splits)

lemma ws_event_Some:
  "ms \<noteq> [] \<Longrightarrow>
   ws_event v (Some ms) =
     (case (case msg_tool_calls (last ms) of
              None \<Rightarrow> ([], Inr (v_sql_query v))
            | Some tcs \<Rightarrow> ws_tool_calls (v_sql_query v) tcs) of
        (fs, Inl e) \<Rightarrow> (fs, Inl e)
      | (fs, Inr sq) \<Rightarrow>
          (fs @ fst (ws_content (v\<lparr>v_sql_query := sq\<rparr>) (last ms)),
           Inr (snd (ws_content (v\<lparr>v_sql_query := sq\<rparr>) (last ms)))))"
  by (cases ms) (auto simp: ws_event_def Let_def case_prod_unfold split: sum.splits)

lemma event_frames_Some:
  "ms \<noteq> [] \<Longrightarrow>
   event_frames (Some ms) =
     concat (map call_frame (case msg_tool_calls (last ms) of None \<Rightarrow> [] | Some tcs \<Rightarrow> tcs)) @
     fst (ws_content v (last ms))"
  by (cases ms)
     (simp_all add: event_frames_def event_tool_calls_def ws_content_frames del: last.simps)

lemma ws_event_frames:
  "\<exists>more. event_frames ev = fst (ws_event v ev) @ more \<and>
     (\<forall>v'. snd (ws_event v ev) = Inr v' \<longrightarrow> more = [])"
proof (cases ev)
  case None
  then show ?thesis
    by (simp add: ws_event_def event_frames_def event_tool_calls_def event_summary_def
        event_sql_result_def)
next
  case (Some ms)
  show ?thesis
  proof (cases "ms = []")
    case True
    with Some show ?thesis by (simp add: ws_event_def)
  next
    case False
    show ?thesis
    proof (cases "msg_tool_calls (last ms)")
      case None
      with Some False show ?thesis
        by (simp add: ws_event_Some event_frames_Some[where v="v\<lparr>v_sql_query := v_sql_query v\<rparr>"])
    next
      case (Some tcs)
      obtain more where m: "concat (map call_frame tcs) = fst (ws_tool_calls (v_sql_query v) tcs) @ more"
        "\<forall>sq'. snd (ws_tool_calls (v_sql_query v) tcs) = Inr sq' \<longrightarrow> more = []"
        using ws_tool_calls_frames by blast
      show ?thesis
      proof (cases "snd (ws_tool_calls (v_sql_query v) tcs)")
        case (Inl e)
        with \<open>ev = Some ms\<close> False Some m show ?thesis
          by (simp add: ws_event_Some case_prod_unfold
              event_frames_Some[where v=v])
      next
        case (Inr sq)
        with m have "more = []" by simp
        with \<open>ev = Some ms\<close> False Some m Inr show ?thesis
          by (simp add: ws_event_Some case_prod_unfold
              event_frames_Some[where v="v\<lparr>v_sql_query := sq\<rparr>"])
      qed
    qed
  qed
qed

lemma ws_content_progress: "list_all is_progress (fst (ws_content v m))"
  by (simp add: ws_content_def split: option.splits pyval.splits)

lemma ws_event_progress: "list_all is_progress (fst (ws_event v ev))"
proof (cases ev)
  case None
  then show ?thesis by (simp add: ws_event_def)
next
  case (Some ms)
  show ?thesis
  proof (cases "ms = []")
    case True
    with Some show ?thesis by (simp add: ws_event_def)
  next
    case False
    with Some show ?thesis
      using ws_tool_calls_progress ws_content_progress
      by (auto simp: ws_event_Some case_prod_unfold split: option.splits sum.splits)
  qed
qed

lemma scan_event_Some:
  "ms \<noteq> [] \<Longrightarrow>
   scan_event a (Some ms) =
     (case (case msg_tool_calls (last ms) of
              None \<Rightarrow> Inr (sql_query a)
            | Some tcs \<Rightarrow> scan_tool_calls (sql_query a) tcs) of
        Inl e \<Rightarrow> Inl e
      | Inr sq \<Rightarrow> Inr (scan_content (a\<lparr>sql_query := sq\<rparr>) (last ms)))"
  by (cases ms) (auto simp: scan_event_def Let_def split: sum.splits)

lemma ws_event_result:
  assumes "v_sql_query v = sql_query a" and "snd (ws_event v ev) = Inr v'"
  shows "\<exists>a'. scan_event a ev = Inr a' \<and> sql_query a' = v_sql_query v'"
proof (cases ev)
  case None
  with assms show ?thesis by (simp add: ws_event_def scan_event_def)
next
  case (Some ms)
  with assms(2) have ne: "ms \<noteq> []" by (auto simp: ws_event_def)
  show ?thesis
  proof (cases "msg_tool_calls (last ms)")
    case None
    with assms Some ne show ?thesis
      by (auto simp: ws_event_Some scan_event_Some)
  next
    case (Some tcs)
    with assms \<open>ev = Some ms\<close> ne show ?thesis
      using ws_tool_calls_result[of "sql_query a" tcs]
      by (cases "ws_tool_calls (sql_query a) tcs")
         (auto simp: ws_event_Some scan_event_Some split: sum.splits)
  qed
qed

lemma ws_events_frames:
  "\<exists>more. concat (map event_frames evs) = fst (ws_events v evs) @ more \<and>
     (\<forall>v'. snd (ws_events v evs) = Inr v' \<longrightarrow> more = [])"
proof (induction evs arbitrary: v)
  case Nil
  then show ?case by simp
next
  case (Cons ev evs)
  obtain more where m: "event_frames ev = fst (ws_event v ev) @ more"
      "\<forall>v'. snd (ws_event v ev) = Inr v' \<longrightarrow> more = []"
    using ws_event_frames by blast
  show ?case
  proof (cases "snd (ws_event v ev)")
    case (Inl e)
    with m show ?thesis by (simp add: case_prod_unfold)
  next
    case (Inr v1)
    with m have e: "event_frames ev = fst (ws_event v ev)" by simp
    obtain more' where "concat (map event_frames evs) = fst (ws_events v1 evs) @ more'"
        "\<forall>v'. snd (ws_events v1 evs) = Inr v' \<longrightarrow> more' = []"
      using Cons.IH[of v1] by blast
    with Inr e show ?thesis by (simp add: case_prod_unfold)
  qed
qed

lemma ws_events_progress: "list_all is_progress (fst (ws_events v evs))"
proof (induction evs arbitrary: v)
  case Nil
  then show ?case by simp
next
  case (Cons ev evs)
  then show ?case
    using ws_event_progress[of v ev]
    by (cases "snd (ws_event v ev)") (simp_all add: case_prod_unfold)
qed

lemma ws_events_result:
  "v_sql_query v = sql_query a \<Longrightarrow> snd (ws_events v evs) = Inr v' \<Longrightarrow>
   \<exists>a'. scan_events a evs = Inr a' \<and> sql_query a' = v_sql_query v'"
proof (induction evs arbitrary: v a)
  case Nil
  then show ?case by simp
next
  case (Cons ev evs)
  from Cons.prems(2) obtain v1 where v1: "snd (ws_event v ev) = Inr v1"
      "snd (ws_events v1 evs) = Inr v'"
    by (cases "snd (ws_event v ev)") (simp_all add: case_prod_unfold)
  from ws_event_result[OF Cons.prems(1) v1(1)] obtain a1
    where a1: "scan_event a ev = Inr a1" "sql_query a1 = v_sql_query v1" by blast
  from Cons.IH[OF a1(2)[symmetric] v1(2)] a1(1) show ?case by simp
qed

lemma ws_run_frames:
  "\<exists>more. concat (map event_frames (events r)) = fst (ws_run r) @ more \<and>
     (\<forall>v'. snd (ws_run r) = Inr v' \<longrightarrow> more = [] \<and> raised r = None)"
  using ws_events_frames[of "events r" vars_init]
  by (auto simp: ws_run_def case_prod_unfold split: sum.splits option.splits)

lemma ws_run_progress: "list_all is_progress (fst (ws_run r))"
  using ws_events_progress[of vars_init "events r"]
  by (auto simp: ws_run_def case_prod_unfold split: sum.splits option.splits)

lemma ws_run_sql:
  assumes "snd (ws_run r) = Inr v"
  shows "if sql_invocations (events r) = [] then v_sql_query v = PNone
         else call_query (last (sql_invocations (events r))) = Inr (v_sql_query v)"
proof -
  from assms have "snd (ws_events vars_init (events r)) = Inr v"
    by (auto simp: ws_run_def case_prod_unfold split: sum.splits option.splits)
  from ws_events_result[OF _ this, of acc_init] obtain a'
    where "scan_events acc_init (events r) = Inr a'" "sql_query a' = v_sql_query v"
    by (auto simp: vars_init_def acc_init_def)
  with scan_events_sql[of acc_init "events r" a'] show ?thesis
    by (auto simp: acc_init_def split: if_splits)
qed

lemma sent_frames_append [simp]: "sent_frames (xs @ ys) = sent_frames xs @ sent_frames ys"
  by (simp add: sent_frames_def)

lemma sent_frames_Cons_Send [simp]: "sent_frames (Send f # es) = f # sent_frames es"
  by (simp add: sent_frames_def)

lemma sent_frames_Cons_Invoke [simp]: "sent_frames (Invoke t i # es) = sent_frames es"
  by (simp add: sent_frames_def)

lemma sent_frames_Nil [simp]: "sent_frames [] = []"
  by (simp add: sent_frames_def)

lemma sent_frames_map_Send [simp]: "sent_frames (map Send fs) = fs"
  by (induction fs) simp_all

lemma progress_not_terminal: "list_all is_progress fs \<Longrightarrow> filter is_terminal fs = []"
proof (induction fs)
  case Nil
  then show ?case by simp
next
  case (Cons f fs)
  then show ?case by (cases f) simp_all
qed

lemma get_or_create_agent_keeps:
  "get_or_create_agent env w = (res, w1) \<Longrightarrow>
   trace w1 = trace w \<and> clock w1 = clock w \<and> user_preferences w1 = user_preferences w"
  by (auto simp: get_or_create_agent_def split: option.splits sum.splits)

lemma ws_turn_no_agent:
  assumes "get_or_create_agent env (emit [Send (Status_processing user_id query)] w) = (Inl e, w1)"
  shows "trace (ws_turn env user_id query w) =
           trace w @ [Send (Status_processing user_id query), Send (Status_error e)]"
  using assms get_or_create_agent_keeps[OF assms]
  by (simp add: ws_turn_def emit_def)

lemma ws_turn_agent:
  assumes "get_or_create_agent env (emit [Send (Status_processing user_id query)] w) =
             (Inr agent, w1)"
    and "agent_stream env agent (Some user_id) (enhanced_input user_id (py_str env query)) =
           (r, agent')"
  shows "trace (ws_turn env user_id query w) =
           trace w @
           [Send (Status_processing user_id query),
            Invoke (Some user_id) (enhanced_input user_id (py_str env query))] @
           map Send (fst (ws_run r)) @
           [Send (case snd (ws_run r) of
                    Inl e \<Rightarrow> Status_error e
                  | Inr v \<Rightarrow> Status_completed (v_sql_query v) (now_isoformat env (clock w)))]"
  using assms get_or_create_agent_keeps[OF assms(1)]
  by (cases "ws_run r")
     (auto simp: ws_turn_def emit_def read_clock_def Let_def split: sum.splits)

text \<open>
  Claim C3. The effects of a streaming turn start with the \<^verbatim>\<open>processing\<close> frame, so
  it precedes any invocation of the engine. The frames sent after it are zero or more
  \<^verbatim>\<open>tool_call\<close>, \<^verbatim>\<open>raw_result\<close> and \<^verbatim>\<open>message\<close> frames, which are an initial part of
  the frames of the events in the order of the events, followed by one last frame that
  is \<^verbatim>\<open>completed\<close> or \<^verbatim>\<open>error\<close>; the turn sends exactly one such terminal frame. A
  \<^verbatim>\<open>completed\<close> frame comes after the frames of all events, and carries the timestamp
  read and the extracted SQL text: \<^verbatim>\<open>None\<close> without an invocation of the SQL tool, the
  query of the latest invocation otherwise.
\<close>

theorem frames_of_a_turn:
  "\<exists>rest mid final more.
     trace (ws_turn env user_id query w) =
       trace w @ Send (Status_processing user_id query) # rest \<and>
     sent_frames rest = mid @ [final] \<and>
     list_all is_progress mid \<and> is_terminal final \<and>
     length (filter is_terminal (Status_processing user_id query # mid @ [final])) = 1 \<and>
     (case turn_run env user_id query w of
        None \<Rightarrow> []
      | Some r \<Rightarrow> concat (map event_frames (events r))) = mid @ more \<and>
     (\<forall>sq ts. final = Status_completed sq ts \<longrightarrow>
        more = [] \<and> ts = now_isoformat env (clock w) \<and>
        (\<exists>r. turn_run env user_id query w = Some r \<and> raised r = None \<and>
           (if sql_invocations (events r) = [] then sq = PNone
            else call_query (last (sql_invocations (events r))) = Inr sq)))"
proof -
  let ?P = "Status_processing user_id query"
  obtain res w1 where g: "get_or_create_agent env (emit [Send ?P] w) = (res, w1)"
    by (cases "get_or_create_agent env (emit [Send ?P] w)")
  show ?thesis
  proof (cases res)
    case (Inl e)
    with g have t: "trace (ws_turn env user_id query w) = trace w @ [Send ?P, Send (Status_error e)]"
      by (simp add: ws_turn_no_agent)
    from g Inl have r: "turn_run env user_id query w = None"
      by (simp add: turn_run_def)
    show ?thesis
      apply (rule exI[of _ "[Send (Status_error e)]"])
      apply (rule exI[of _ "[]"])
      apply (rule exI[of _ "Status_error e"])
      apply (rule exI[of _ "[]"])
      using t r by simp
  next
    case (Inr agent)
    let ?inp = "enhanced_input user_id (py_str env query)"
    obtain r agent' where s: "agent_stream env agent (Some user_id) ?inp = (r, agent')"
      by (cases "agent_stream env agent (Some user_id) ?inp")
    let ?final = "case snd (ws_run r) of
                    Inl e \<Rightarrow> Status_error e
                  | Inr v \<Rightarrow> Status_completed (v_sql_query v) (now_isoformat env (clock w))"
    from g Inr s have t: "trace (ws_turn env user_id query w) =
        trace w @ [Send ?P, Invoke (Some user_id) ?inp] @ map Send (fst (ws_run r)) @ [Send ?final]"
      by (simp add: ws_turn_agent)
    from g Inr s have tr: "turn_run env user_id query w = Some r"
      by (simp add: turn_run_def)
    obtain more where m: "concat (map event_frames (events r)) = fst (ws_run r) @ more"
        "\<forall>v'. snd (ws_run r) = Inr v' \<longrightarrow> more = [] \<and> raised r = None"
      using ws_run_frames by blast
    have tm: "is_terminal ?final" by (simp split: sum.splits)
    have one: "length (filter is_terminal (?P # fst (ws_run r) @ [?final])) = 1"
      using progress_not_terminal[OF ws_run_progress[of r]] tm by simp
    have fin: "more = [] \<and> ts = now_isoformat env (clock w) \<and>
        (\<exists>r'. turn_run env user_id query w = Some r' \<and> raised r' = None \<and>
           (if sql_invocations (events r') = [] then sq = PNone
            else call_query (last (sql_invocations (events r'))) = Inr sq))"
      if c: "?final = Status_completed sq ts" for sq ts
    proof -
      from c obtain v where v: "snd (ws_run r) = Inr v" "sq = v_sql_query v"
          "ts = now_isoformat env (clock w)"
        by (cases "snd (ws_run r)") auto
      from m(2) v(1) have "more = []" "raised r = None" by auto
      with ws_run_sql[OF v(1)] v tr show ?thesis by auto
    qed
    have all: "\<forall>sq ts. ?final = Status_completed sq ts \<longrightarrow>
        more = [] \<and> ts = now_isoformat env (clock w) \<and>
        (\<exists>r'. turn_run env user_id query w = Some r' \<and> raised r' = None \<and>
           (if sql_invocations (events r') = [] then sq = PNone
            else call_query (last (sql_invocations (events r'))) = Inr sq))"
      using fin by blast
    have tr': "(case turn_run env user_id query w of
        None \<Rightarrow> []
      | Some r \<Rightarrow> concat (map event_frames (events r))) = fst (ws_run r) @ more"
      using tr m(1) by simp
    have t': "trace (ws_turn env user_id query w) = trace w @ Send ?P #
        (Invoke (Some user_id) ?inp # map Send (fst (ws_run r)) @ [Send ?final])"
      using t by simp
    have sf: "sent_frames (Invoke (Some user_id) ?inp # map Send (fst (ws_run r)) @ [Send ?final]) =
        fst (ws_run r) @ [?final]"
      by simp
    from t' sf ws_run_progress[of r] tm one tr' all show ?thesis by blast
  qed
qed

lemmas ws_defs = ws_turn_def ws_run_def ws_event_def ws_content_def get_or_create_agent_def
  call_query_def read_clock_def emit_def vars_init_def enhanced_input_def py_str_def Let_def
  str_nat.simps

text \<open>
  Claim C3 at a turn with one call of another tool and a final message.
\<close>

theorem frames_of_a_turn_witness:
  "sent_frames (trace (ws_turn (sample_env (Run one_call None)) ''alice''
      (PStr ''how many tables?'') sample_world)) =
     [Status_processing ''alice'' (PStr ''how many tables?''),
      Type_tool_call (PStr ''sql_db_list_tables'') (PDict []),
      Type_message [],
      Type_message ''There are two tables'',
      Status_completed PNone ''2025-01-01T00:00:00.0''] \<and>
   concat (map event_frames one_call) =
     [Type_tool_call (PStr ''sql_db_list_tables'') (PDict []),
      Type_message [],
      Type_message ''There are two tables''] \<and>
   sql_invocations one_call = []"
proof -
  let ?env = "sample_env (Run one_call None)"
  let ?q = "PStr ''how many tables?''"
  let ?mid = "[Type_tool_call (PStr ''sql_db_list_tables'') (PDict []), Type_message [],
      Type_message ''There are two tables'']"
  have tr: "trace (ws_turn ?env ''alice'' ?q sample_world) =
      [Send (Status_processing ''alice'' ?q),
       Invoke (Some ''alice'') (enhanced_input ''alice'' ''how many tables?''),
       Send (Type_tool_call (PStr ''sql_db_list_tables'') (PDict [])),
       Send (Type_message []),
       Send (Type_message ''There are two tables''),
       Send (Status_completed PNone ''2025-01-01T00:00:00.0'')]"
    by (simp add: ws_defs sample_env_def sample_world_def one_call_def ai_msg_def tool_msg_def
        sql_tool_def)
  have run: "turn_run ?env ''alice'' ?q sample_world = Some (Run one_call None)"
    by (simp add: turn_run_def get_or_create_agent_def emit_def sample_env_def sample_world_def)
  have inv: "sql_invocations one_call = []"
    by (simp add: sql_invocations_def event_tool_calls_def is_sql_call_def one_call_def
        ai_msg_def tool_msg_def sql_tool_def)
  from frames_of_a_turn[of ?env "''alice''" ?q sample_world]
  obtain rest mid final more where
    a: "trace (ws_turn ?env ''alice'' ?q sample_world) =
          trace sample_world @ Send (Status_processing ''alice'' ?q) # rest"
    and b: "sent_frames rest = mid @ [final]"
    and c: "(case turn_run ?env ''alice'' ?q sample_world of
              None \<Rightarrow> []
            | Some r \<Rightarrow> concat (map event_frames (events r))) = mid @ more"
    and d: "\<forall>sq ts. final = Status_completed sq ts \<longrightarrow> more = [] \<and>
              ts = now_isoformat ?env (clock sample_world) \<and>
              (\<exists>r. turn_run ?env ''alice'' ?q sample_world = Some r \<and> raised r = None \<and>
                 (if sql_invocations (events r) = [] then sq = PNone
                  else call_query (last (sql_invocations (events r))) = Inr sq))"
    by blast
  from a tr have "rest =
      [Invoke (Some ''alice'') (enhanced_input ''alice'' ''how many tables?''),
       Send (Type_tool_call (PStr ''sql_db_list_tables'') (PDict [])),
       Send (Type_message []),
       Send (Type_message ''There are two tables''),
       Send (Status_completed PNone ''2025-01-01T00:00:00.0'')]"
    by (simp add: sample_world_def)
  with b have "mid @ [final] = ?mid @ [Status_completed PNone ''2025-01-01T00:00:00.0'']"
    by simp
  then have mf: "mid = ?mid" "final = Status_completed PNone ''2025-01-01T00:00:00.0''"
    by (simp_all only: append1_eq_conv)
  from d mf(2) have "more = []" by blast
  with c run mf(1) have "concat (map event_frames one_call) = ?mid" by simp
  with tr inv show ?thesis by simp
qed

text \<open>
  Claim C4. For an inbound frame whose \<^verbatim>\<open>query\<close> is missing or the empty string, the
  handler sends the one frame \<^verbatim>\<open>{"error": "Query is required"}\<close>, invokes no engine,
  and goes on with the next inbound frame.
\<close>

theorem empty_query_is_rejected:
  assumes "map_of kvs ''query'' = None \<or> map_of kvs ''query'' = Some (PStr [])"
  shows "ws_loop env user_id (Inr (PDict kvs) # rest) w =
           ws_loop env user_id rest
             (w\<lparr>trace := trace w @ [Send (Error_only ''Query is required'')]\<rparr>) \<and>
         sent_frames (trace w @ [Send (Error_only ''Query is required'')]) =
           sent_frames (trace w) @ [Error_only ''Query is required''] \<and>
         invocations (trace w @ [Send (Error_only ''Query is required'')]) =
           invocations (trace w)"
  using assms by (auto simp: emit_def invocations_def)

text \<open>
  Claim C4 at an inbound frame without \<^verbatim>\<open>query\<close>, after which the client
  disconnects.
\<close>

theorem empty_query_is_rejected_witness:
  "ws_loop (sample_env (Run one_call None)) ''alice'' [Inr (PDict [])] sample_world =
     ((Disconnected, []),
      sample_world\<lparr>trace := [Send (Error_only ''Query is required''),
                              Print_disconnected ''alice'']\<rparr>)"
proof -
  have h: "map_of ([] :: (string \<times> pyval) list) ''query'' = None \<or>
      map_of ([] :: (string \<times> pyval) list) ''query'' = Some (PStr [])" by simp
  from empty_query_is_rejected[OF h, of "sample_env (Run one_call None)" "''alice''" "[]"
      sample_world]
  show ?thesis by (simp add: emit_def sample_world_def)
qed

text \<open>An exception of the engine inside a turn is answered with an \<^verbatim>\<open>error\<close> frame,
  and the loop goes on with the next inbound frame.\<close>

lemma failed_turn_resumes:
  assumes "py_get request_data ''query'' (PStr []) = Inr query"
    and "truthy query"
    and "get_or_create_agent env (emit [Send (Status_processing user_id query)] w) =
           (Inr agent, w1)"
    and "agent_stream env agent (Some user_id) (enhanced_input user_id (py_str env query)) =
           (Run evs (Some e), agent')"
    and "snd (ws_events vars_init evs) = Inr v"
  shows "trace (ws_turn env user_id query w) =
           trace w @
           [Send (Status_processing user_id query),
            Invoke (Some user_id) (enhanced_input user_id (py_str env query))] @
           map Send (fst (ws_events vars_init evs)) @
           [Send (Status_error e)] \<and>
         ws_loop env user_id (Inr request_data # rest) w =
           ws_loop env user_id rest (ws_turn env user_id query w)"
proof -
  have r: "ws_run (Run evs (Some e)) = (fst (ws_events vars_init evs), Inl e)"
    using assms(5) by (simp add: ws_run_def case_prod_unfold)
  from ws_turn_agent[OF assms(3) assms(4)] r assms(1,2) show ?thesis by simp
qed

text \<open>
  Claim C9 at a malformed inbound frame. The claim asks that a failed turn leave the
  channel open for the turns after it. Here the first inbound text is not JSON, or is
  JSON but a list: the handler prints the exception, sends one \<^verbatim>\<open>error\<close> frame and
  returns, and the utterance sent after it is never read.
\<close>

theorem malformed_frame_ends_channel:
  "websocket_endpoint (sample_env (Run one_call None)) ''alice''
     [Inl (JSONDecodeError ''Expecting value''),
      Inr (PDict [(''query'', PStr ''how many tables?'')])] sample_world =
     ((Aborted (JSONDecodeError ''Expecting value''),
       [Inr (PDict [(''query'', PStr ''how many tables?'')])]),
      sample_world\<lparr>trace :=
        [Accept, Print_error (JSONDecodeError ''Expecting value''),
         Send (Status_error (JSONDecodeError ''Expecting value''))]\<rparr>) \<and>
   websocket_endpoint (sample_env (Run one_call None)) ''alice''
     [Inr (PList []),
      Inr (PDict [(''query'', PStr ''how many tables?'')])] sample_world =
     ((Aborted (AttributeError ''list''),
       [Inr (PDict [(''query'', PStr ''how many tables?'')])]),
      sample_world\<lparr>trace :=
        [Accept, Print_error (AttributeError ''list''),
         Send (Status_error (AttributeError ''list''))]\<rparr>)"
  by (simp add: websocket_endpoint_def emit_def sample_world_def)

end
